theory Spec2Isabelle
  imports Main
begin

section \<open>Python values and exceptions\<close>

text \<open>
  The ledger client hands back parsed JSON. A Python \<open>str\<close> is modelled by its UTF-8
  bytes: two strings are equal exactly when their byte sequences are, and the byte of
  the full stop never occurs inside a multi-byte character, so equality and splitting at
  \<open>"."\<close> agree with Python's. \<open>JNum n\<close> stands for any JSON number that is zero exactly
  when \<open>n\<close> is: the program only ever tests a number for truthiness.
\<close>

datatype json =
    JNull
  | JBool bool
  | JNum int
  | JStr string
  | JArr "json list"
  | JObj "(string \<times> json) list"

text \<open>
  Instances of Python's class \<open>Exception\<close>, which is what \<open>except Exception\<close>
  catches. Interrupts and task cancellation are not of that class and are not modelled.
\<close>

datatype exn = TypeError | AttributeError | UnicodeEncodeError | Exception string

text \<open>\<open>not v\<close> is \<open>\<not> truthy v\<close>.\<close>

fun truthy :: "json \<Rightarrow> bool" where
  "truthy JNull = False"
| "truthy (JBool b) = b"
| "truthy (JNum n) = (n \<noteq> 0)"
| "truthy (JStr s) = (s \<noteq> [])"
| "truthy (JArr xs) = (xs \<noteq> [])"
| "truthy (JObj d) = (d \<noteq> [])"

text \<open>\<open>len(v)\<close>: only strings, lists and dicts have a length.\<close>

fun py_len :: "json \<Rightarrow> exn + nat" where
  "py_len (JStr s) = Inr (length s)"
| "py_len (JArr xs) = Inr (length xs)"
| "py_len (JObj d) = Inr (length d)"
| "py_len v = Inl TypeError"

text \<open>
  \<open>for x in v\<close>: a list yields its elements, a dict its keys, a string its characters
  (each a string again); anything else is not iterable.
\<close>

fun py_iter :: "json \<Rightarrow> exn + json list" where
  "py_iter (JArr xs) = Inr xs"
| "py_iter (JObj d) = Inr (map (\<lambda>kv. JStr (fst kv)) d)"
| "py_iter (JStr s) = Inr (map (\<lambda>c. JStr [c]) s)"
| "py_iter v = Inl TypeError"

text \<open>\<open>d.get(k, default)\<close> on a dict.\<close>

definition dict_get :: "(string \<times> json) list \<Rightarrow> string \<Rightarrow> json \<Rightarrow> json" where
  "dict_get d k dflt = (case map_of d k of None \<Rightarrow> dflt | Some v \<Rightarrow> v)"

text \<open>\<open>v.get(k, default)\<close> on any value: only a dict has the method.\<close>

fun py_get :: "json \<Rightarrow> string \<Rightarrow> json \<Rightarrow> exn + json" where
  "py_get (JObj d) k dflt = Inr (dict_get d k dflt)"
| "py_get v k dflt = Inl AttributeError"

section \<open>The data model\<close>

record WalletStatus =
  address :: string
  has_trustline :: bool

text \<open>The handle of an \<open>AsyncWebsocketClient\<close>, built for one URL.\<close>

datatype websocket_client = AsyncWebsocketClient string

record TrustLineChecker =
  websocket_url :: string
  token_issuer :: string
  token_currency :: string
  client :: "websocket_client option"

text \<open>What the summary at the end of \<open>main\<close> prints.\<close>

record summary =
  total_checked :: int
  with_trustline :: int
  without_trustline :: int
  wallets_without_trustlines :: "string list"

section \<open>The world outside the program\<close>

text \<open>
  Every call that leaves the program is recorded, in the order made: reading the input
  file, the calls to the websocket client, writing the output file and the final summary
  printed to the console.
\<close>

datatype event =
    LoadWallets string
  | ClientNew string
  | ClientOpen
  | ClientRequest string
  | ClientClose
  | SaveResults "WalletStatus list" string
  | PrintSummary summary

text \<open>
  What \<open>await self.client.request(request)\<close> gives: an exception, or a response whose
  \<open>result\<close> is a dict.
\<close>

datatype reply = Raises exn | Response "(string \<times> json) list"

text \<open>
  Three of the program's prints hold a character outside ASCII: the star (U+2B50) of
  line 67, and the tick (U+2705) or the cross (U+274C) of line 90. \<open>print\<close> raises
  \<open>UnicodeEncodeError\<close> where the encoding of the console has no such character (ASCII,
  cp1252), and prints it otherwise (UTF-8). The other prints hold ASCII text and the data
  and are taken to succeed; they are not recorded.
\<close>

datatype emoji = Star | CheckMark | CrossMark

text \<open>
  The behaviour of the collaborators is a parameter. The websocket client may answer
  depending on everything that happened before (the events so far). \<open>load_wallets\<close> and
  \<open>save_results\<close> read and write files through the csv and pandas libraries; only their
  outcome is taken here, whatever the files hold. \<open>print_emoji\<close> is what printing a line
  with that character does on the console at hand: nothing more, or an exception.
\<close>

record outside =
  getenv :: "string \<Rightarrow> string option"
  print_emoji :: "emoji \<Rightarrow> exn option"
  load_wallets :: "string \<Rightarrow> exn + string list"
  client_new :: "string \<Rightarrow> exn option"
  client_open :: "event list \<Rightarrow> exn option"
  client_request :: "event list \<Rightarrow> string \<Rightarrow> reply"
  client_close :: "event list \<Rightarrow> exn option"
  save_results :: "WalletStatus list \<Rightarrow> string \<Rightarrow> exn option"

section \<open>TrustLineChecker\<close>

text \<open>
  \<open>s.split(sep)\<close> for a one-character separator; \<open>cur\<close> holds the current piece,
  reversed. The result is never empty, so \<open>[-1]\<close> on it is its last element.
\<close>

fun split_acc :: "char \<Rightarrow> string \<Rightarrow> string \<Rightarrow> string list" where
  "split_acc sep cur [] = [rev cur]"
| "split_acc sep cur (c # cs) =
     (if c = sep then rev cur # split_acc sep [] cs else split_acc sep (c # cur) cs)"

definition py_split :: "string \<Rightarrow> char \<Rightarrow> string list" where
  "py_split s sep = split_acc sep [] s"

definition TrustLineChecker_init :: "string \<Rightarrow> string \<Rightarrow> string \<Rightarrow> TrustLineChecker" where
  "TrustLineChecker_init url issuer currency =
     \<lparr> websocket_url = url,
       token_issuer =
         (if CHR ''.'' \<in> set issuer then last (py_split issuer (CHR ''.'')) else issuer),
       token_currency = currency,
       client = None \<rparr>"

text \<open>
  \<open>connect\<close>: the client is stored in \<open>self.client\<close> before it is opened, so a failed
  \<open>open\<close> leaves a checker that holds a client.
\<close>

definition connect ::
  "outside \<Rightarrow> TrustLineChecker \<Rightarrow> event list \<Rightarrow> (exn + unit) \<times> TrustLineChecker \<times> event list" where
  "connect out self tr =
     (let tr1 = tr @ [ClientNew (websocket_url self)] in
      case client_new out (websocket_url self) of
        Some e \<Rightarrow> (Inl e, self, tr1)
      | None \<Rightarrow>
          (let self' = self\<lparr>client := Some (AsyncWebsocketClient (websocket_url self))\<rparr>;
               tr2 = tr1 @ [ClientOpen] in
           case client_open out tr1 of
             Some e \<Rightarrow> (Inl e, self', tr2)
           | None \<Rightarrow> (Inr (), self', tr2)))"

text \<open>
  The debugging loop of \<open>check_trustline\<close> (lines 52 to 67): it prints every line, and
  the star after a line that matches issuer and currency. It raises where \<open>lines\<close> has
  no length, a line has no \<open>get\<close>, or the star cannot be printed.
\<close>

fun show_lines :: "outside \<Rightarrow> string \<Rightarrow> string \<Rightarrow> json list \<Rightarrow> exn + unit" where
  "show_lines out issuer currency [] = Inr ()"
| "show_lines out issuer currency (line # rest) =
     (case py_get line ''currency'' (JStr ''N/A'') of Inl e \<Rightarrow> Inl e | Inr _ \<Rightarrow>
     (case py_get line ''account'' (JStr ''N/A'') of Inl e \<Rightarrow> Inl e | Inr _ \<Rightarrow>
     (case py_get line ''balance'' (JStr ''N/A'') of Inl e \<Rightarrow> Inl e | Inr _ \<Rightarrow>
     (case py_get line ''limit'' (JStr ''N/A'') of Inl e \<Rightarrow> Inl e | Inr _ \<Rightarrow>
     (case py_get line ''account'' JNull of Inl e \<Rightarrow> Inl e | Inr a \<Rightarrow>
        if a = JStr issuer
        then (case py_get line ''currency'' JNull of Inl e \<Rightarrow> Inl e | Inr c \<Rightarrow>
                if c = JStr currency
                then (case print_emoji out Star of
                        Some e \<Rightarrow> Inl e
                      | None \<Rightarrow> show_lines out issuer currency rest)
                else show_lines out issuer currency rest)
        else show_lines out issuer currency rest)))))"

definition show_trust_lines :: "outside \<Rightarrow> string \<Rightarrow> string \<Rightarrow> json \<Rightarrow> exn + unit" where
  "show_trust_lines out issuer currency lines =
     (if \<not> truthy lines then Inr ()
      else (case py_len lines of Inl e \<Rightarrow> Inl e | Inr _ \<Rightarrow>
           (case py_iter lines of Inl e \<Rightarrow> Inl e
            | Inr ls \<Rightarrow> show_lines out issuer currency ls)))"

text \<open>The deciding loop (lines 70 to 77): the first matching line returns.\<close>

fun scan_lines :: "string \<Rightarrow> string \<Rightarrow> json list \<Rightarrow> exn + bool" where
  "scan_lines issuer currency [] = Inr False"
| "scan_lines issuer currency (line # rest) =
     (case py_get line ''account'' JNull of Inl e \<Rightarrow> Inl e | Inr a \<Rightarrow>
        if a = JStr issuer
        then (case py_get line ''currency'' JNull of Inl e \<Rightarrow> Inl e | Inr c \<Rightarrow>
                if c = JStr currency
                then (case py_get line ''limit'' (JStr ''0'') of Inl e \<Rightarrow> Inl e
                      | Inr limit \<Rightarrow> Inr (limit \<noteq> JStr ''0''))
                else scan_lines issuer currency rest)
        else scan_lines issuer currency rest)"

text \<open>What the \<open>try\<close> block does with a response's \<open>result\<close> (lines 45 to 77).\<close>

definition examine_result ::
  "outside \<Rightarrow> TrustLineChecker \<Rightarrow> (string \<times> json) list \<Rightarrow> exn + bool" where
  "examine_result out self result =
     (if ''error'' \<in> fst ` set result then Inr False
      else
        (let lines = dict_get result ''lines'' (JArr []) in
         case show_trust_lines out (token_issuer self) (token_currency self) lines of
           Inl e \<Rightarrow> Inl e
         | Inr _ \<Rightarrow>
             (case py_iter lines of Inl e \<Rightarrow> Inl e
              | Inr ls \<Rightarrow> scan_lines (token_issuer self) (token_currency self) ls)))"

text \<open>
  The \<open>try\<close> block: with no client, \<open>self.client.request\<close> is an attribute of \<open>None\<close>.
  Building the \<open>AccountLines\<close> request from a string does not raise.
\<close>

definition check_trustline_try ::
  "outside \<Rightarrow> TrustLineChecker \<Rightarrow> string \<Rightarrow> event list \<Rightarrow> (exn + bool) \<times> event list" where
  "check_trustline_try out self wallet_address tr =
     (case client self of
        None \<Rightarrow> (Inl AttributeError, tr)
      | Some c \<Rightarrow>
          (case client_request out tr wallet_address of
             Raises e \<Rightarrow> (Inl e, tr @ [ClientRequest wallet_address])
           | Response result \<Rightarrow>
               (examine_result out self result, tr @ [ClientRequest wallet_address])))"

text \<open>\<open>check_trustline\<close>: the \<open>try\<close> block under \<open>except Exception: return False\<close>.\<close>

definition check_trustline ::
  "outside \<Rightarrow> TrustLineChecker \<Rightarrow> string \<Rightarrow> event list \<Rightarrow> (exn + bool) \<times> event list" where
  "check_trustline out self wallet_address tr =
     (case check_trustline_try out self wallet_address tr of
        (Inl e, tr') \<Rightarrow> (Inr False, tr')
      | (Inr b, tr') \<Rightarrow> (Inr b, tr'))"

text \<open>
  \<open>check_wallets\<close>: the loop appends one status per wallet and prints it with the
  tick or the cross (lines 89 and 90), outside any \<open>try\<close>: an exception of that print,
  or one out of \<open>check_trustline\<close>, leaves the loop and the function.
\<close>

fun check_wallets_loop ::
  "outside \<Rightarrow> TrustLineChecker \<Rightarrow> string list \<Rightarrow> WalletStatus list \<Rightarrow> event list
     \<Rightarrow> (exn + WalletStatus list) \<times> event list" where
  "check_wallets_loop out self [] results tr = (Inr results, tr)"
| "check_wallets_loop out self (wallet # rest) results tr =
     (case check_trustline out self wallet tr of
        (Inl e, tr') \<Rightarrow> (Inl e, tr')
      | (Inr has, tr') \<Rightarrow>
          (case print_emoji out (if has then CheckMark else CrossMark) of
             Some e \<Rightarrow> (Inl e, tr')
           | None \<Rightarrow>
               check_wallets_loop out self rest
                 (results @ [\<lparr>address = wallet, has_trustline = has\<rparr>]) tr'))"

definition check_wallets ::
  "outside \<Rightarrow> TrustLineChecker \<Rightarrow> string list \<Rightarrow> event list
     \<Rightarrow> (exn + WalletStatus list) \<times> event list" where
  "check_wallets out self wallets tr = check_wallets_loop out self wallets [] tr"

definition close :: "outside \<Rightarrow> TrustLineChecker \<Rightarrow> event list \<Rightarrow> (exn + unit) \<times> event list" where
  "close out self tr =
     (case client self of
        None \<Rightarrow> (Inr (), tr)
      | Some c \<Rightarrow>
          (case client_close out tr of
             Some e \<Rightarrow> (Inl e, tr @ [ClientClose])
           | None \<Rightarrow> (Inr (), tr @ [ClientClose])))"

section \<open>main\<close>

text \<open>The summary (lines 173 to 184).\<close>

definition summarise :: "WalletStatus list \<Rightarrow> summary" where
  "summarise results =
     (let trustlines_count = sum_list (map (\<lambda>r. 1) (filter has_trustline results));
          without = map address (filter (\<lambda>r. \<not> has_trustline r) results)
      in \<lparr> total_checked = int (length results),
           with_trustline = trustlines_count,
           without_trustline = int (length results) - trustlines_count,
           wallets_without_trustlines = without \<rparr>)"

text \<open>A setting counts as given when it is set and not empty.\<close>

definition setting_given :: "string option \<Rightarrow> bool" where
  "setting_given v = (case v of None \<Rightarrow> False | Some s \<Rightarrow> s \<noteq> [])"

text \<open>
  The \<open>try\<close> block of \<open>main\<close>. Next to its outcome it returns the local \<open>checker\<close>, if
  that was assigned: the \<open>finally\<close> clause asks for it.
\<close>

definition main_try ::
  "outside \<Rightarrow> string \<Rightarrow> string \<Rightarrow> string \<Rightarrow> string \<Rightarrow> string \<Rightarrow> event list
     \<Rightarrow> (exn + unit) \<times> TrustLineChecker option \<times> event list" where
  "main_try out url issuer currency input_csv output_csv tr =
     (let tr1 = tr @ [LoadWallets input_csv] in
      case load_wallets out input_csv of
        Inl e \<Rightarrow> (Inl e, None, tr1)
      | Inr wallets \<Rightarrow>
          (case connect out (TrustLineChecker_init url issuer currency) tr1 of
             (Inl e, checker, tr2) \<Rightarrow> (Inl e, Some checker, tr2)
           | (Inr _, checker, tr2) \<Rightarrow>
               (case check_wallets out checker wallets tr2 of
                  (Inl e, tr3) \<Rightarrow> (Inl e, Some checker, tr3)
                | (Inr results, tr3) \<Rightarrow>
                    (let tr4 = tr3 @ [SaveResults results output_csv] in
                     case save_results out results output_csv of
                       Some e \<Rightarrow> (Inl e, Some checker, tr4)
                     | None \<Rightarrow>
                         (Inr (), Some checker, tr4 @ [PrintSummary (summarise results)])))))"

text \<open>
  \<open>main\<close>: the settings, the early return, then the \<open>try\<close> block, whose exception is
  printed and dropped, and the \<open>finally\<close> clause. Past the early return the three
  settings are set, so \<open>the\<close> reads them.
\<close>

definition main :: "outside \<Rightarrow> event list \<Rightarrow> (exn + unit) \<times> event list" where
  "main out tr =
     (let websocket_url = getenv out ''XRPL_WEBSOCKET_URL'';
          token_issuer = getenv out ''TOKEN_ISSUER'';
          token_currency = getenv out ''TOKEN_CURRENCY'';
          input_csv = (case getenv out ''INPUT_CSV'' of None \<Rightarrow> ''wallets.csv'' | Some p \<Rightarrow> p);
          output_csv =
            (case getenv out ''OUTPUT_CSV'' of None \<Rightarrow> ''trustline_status.csv'' | Some p \<Rightarrow> p)
      in
      if \<not> (setting_given websocket_url \<and> setting_given token_issuer
             \<and> setting_given token_currency)
      then (Inr (), tr)
      else
        (case main_try out (the websocket_url) (the token_issuer) (the token_currency)
                input_csv output_csv tr of
           (r, None, tr') \<Rightarrow> (Inr (), tr')
         | (r, Some checker, tr') \<Rightarrow> close out checker tr'))"

section \<open>The specification's words\<close>

text \<open>
  A trust-line entry is a dict. It matches when its \<open>account\<close> is the target issuer and
  its \<open>currency\<close> the target currency, both as strings.
\<close>

definition is_match :: "string \<Rightarrow> string \<Rightarrow> (string \<times> json) list \<Rightarrow> bool" where
  "is_match issuer currency entry =
     (map_of entry ''account'' = Some (JStr issuer)
      \<and> map_of entry ''currency'' = Some (JStr currency))"

text \<open>
  The first matching entry, in the order given, decides: the result is true when there is
  one and it has a limit that is not the string \<open>"0"\<close>.
\<close>

definition usable_trust_line :: "string \<Rightarrow> string \<Rightarrow> (string \<times> json) list list \<Rightarrow> bool" where
  "usable_trust_line issuer currency entries =
     (case find (is_match issuer currency) entries of
        None \<Rightarrow> False
      | Some entry \<Rightarrow>
          (case map_of entry ''limit'' of None \<Rightarrow> False | Some limit \<Rightarrow> limit \<noteq> JStr ''0''))"

text \<open>A session was created when the client's constructor was called and returned.\<close>

definition session_created :: "outside \<Rightarrow> event list \<Rightarrow> bool" where
  "session_created out tr =
     list_ex (\<lambda>ev. case ev of ClientNew url \<Rightarrow> client_new out url = None | _ \<Rightarrow> False) tr"

section \<open>A ledger to run the program on\<close>

definition usd_line :: "(string \<times> json) list" where
  "usd_line =
     [(''account'', JStr ''rABC123''), (''currency'', JStr ''USD''),
      (''balance'', JStr ''5''), (''limit'', JStr ''1000'')]"

definition eur_line :: "(string \<times> json) list" where
  "eur_line =
     [(''account'', JStr ''rABC123''), (''currency'', JStr ''EUR''),
      (''balance'', JStr ''0''), (''limit'', JStr ''20'')]"

definition usd_line_no_limit :: "(string \<times> json) list" where
  "usd_line_no_limit =
     [(''account'', JStr ''rABC123''), (''currency'', JStr ''USD''), (''balance'', JStr ''0'')]"

text \<open>
  Alice holds the asset, the request for Bob fails in transport, Carol's account gives a
  protocol error, Dave's entry has no limit, and anyone else's response has no list. The
  console of \<open>demo_outside\<close> prints every character.
\<close>

definition demo_request :: "string \<Rightarrow> reply" where
  "demo_request a =
     (if a = ''rAlice'' then Response [(''lines'', JArr [JObj eur_line, JObj usd_line])]
      else if a = ''rBob'' then Raises (Exception ''connection dropped'')
      else if a = ''rCarol'' then
        Response [(''error'', JStr ''actNotFound''), (''lines'', JArr [JObj usd_line])]
      else if a = ''rDave'' then Response [(''lines'', JArr [JObj usd_line_no_limit, JObj usd_line])]
      else Response [(''account'', JStr a)])"

definition demo_getenv :: "string \<Rightarrow> string option" where
  "demo_getenv k =
     (if k = ''XRPL_WEBSOCKET_URL'' then Some ''wss://node''
      else if k = ''TOKEN_ISSUER'' then Some ''ns.rABC123''
      else if k = ''TOKEN_CURRENCY'' then Some ''USD''
      else None)"

definition demo_outside :: outside where
  "demo_outside =
     \<lparr> getenv = demo_getenv,
       print_emoji = (\<lambda>c. None),
       load_wallets = (\<lambda>p. Inr [''rAlice'', ''rBob'', ''rCarol'']),
       client_new = (\<lambda>u. None),
       client_open = (\<lambda>tr. None),
       client_request = (\<lambda>tr. demo_request),
       client_close = (\<lambda>tr. None),
       save_results = (\<lambda>rs p. None) \<rparr>"

definition demo_checker :: TrustLineChecker where
  "demo_checker =
     (TrustLineChecker_init ''wss://node'' ''ns.rABC123'' ''USD'')
       \<lparr>client := Some (AsyncWebsocketClient ''wss://node'')\<rparr>"

text \<open>
  The same world with the issuer not configured, with a node that refuses the handshake,
  and with a console in ASCII.
\<close>

definition demo_outside_ascii :: outside where
  "demo_outside_ascii = demo_outside\<lparr>print_emoji := (\<lambda>c. Some UnicodeEncodeError)\<rparr>"

definition demo_outside_no_issuer :: outside where
  "demo_outside_no_issuer =
     demo_outside\<lparr>getenv := (\<lambda>k. if k = ''TOKEN_ISSUER'' then None else demo_getenv k)\<rparr>"

definition demo_outside_open_fails :: outside where
  "demo_outside_open_fails =
     demo_outside\<lparr>client_open := (\<lambda>tr. Some (Exception ''handshake failed''))\<rparr>"

section \<open>Lemmas on the loops\<close>

lemma split_acc_no_sep: "sep \<notin> set s \<Longrightarrow> split_acc sep cur s = [rev cur @ s]"
  by (induction s arbitrary: cur) auto

lemma split_acc_nonempty: "split_acc sep cur s \<noteq> []"
  by (induction s arbitrary: cur) auto

lemma split_acc_last:
  "sep \<in> set s \<Longrightarrow>
     \<exists>pre. s = pre @ sep # last (split_acc sep cur s) \<and> sep \<notin> set (last (split_acc sep cur s))"
proof (induction s arbitrary: cur)
  case Nil
  then show ?case by simp
next
  case (Cons c cs)
  define cur' where "cur' = (if c = sep then [] else c # cur)"
  have step: "last (split_acc sep cur (c # cs)) = last (split_acc sep cur' cs)"
    by (simp add: cur'_def split_acc_nonempty)
  show ?case
  proof (cases "sep \<in> set cs")
    case True
    from Cons.IH [OF True, of cur'] obtain pre where
      "cs = pre @ sep # last (split_acc sep cur' cs)" "sep \<notin> set (last (split_acc sep cur' cs))"
      by blast
    then have "c # cs = (c # pre) @ sep # last (split_acc sep cur' cs)
        \<and> sep \<notin> set (last (split_acc sep cur' cs))"
      by simp
    then show ?thesis unfolding step by blast
  next
    case False
    with Cons.prems have c: "c = sep" by simp
    with False have "last (split_acc sep cur' cs) = cs"
      by (simp add: cur'_def split_acc_no_sep)
    with c False have "c # cs = [] @ sep # last (split_acc sep cur' cs)
        \<and> sep \<notin> set (last (split_acc sep cur' cs))"
      by simp
    then show ?thesis unfolding step by blast
  qed
qed

lemma show_lines_dicts:
  "show_lines out issuer currency (map JObj entries) =
     (case print_emoji out Star of
        None \<Rightarrow> Inr ()
      | Some e \<Rightarrow> if list_ex (is_match issuer currency) entries then Inl e else Inr ())"
proof (induction entries)
  case Nil
  show ?case by (simp split: option.splits)
next
  case (Cons a entries)
  have m: "is_match issuer currency a
      \<longleftrightarrow> dict_get a ''account'' JNull = JStr issuer \<and> dict_get a ''currency'' JNull = JStr currency"
    by (auto simp: is_match_def dict_get_def split: option.splits)
  show ?case
  proof (cases "is_match issuer currency a")
    case True
    with m Cons.IH show ?thesis by (simp split: option.splits)
  next
    case False
    with m Cons.IH show ?thesis by (auto split: option.splits)
  qed
qed

lemma scan_lines_dicts:
  "scan_lines issuer currency (map JObj entries) = Inr (usable_trust_line issuer currency entries)"
  by (induction entries)
     (auto simp: usable_trust_line_def is_match_def dict_get_def split: option.splits)

lemma usable_has_match:
  "usable_trust_line issuer currency entries \<Longrightarrow> list_ex (is_match issuer currency) entries"
  by (induction entries) (auto simp: usable_trust_line_def split: if_splits)

lemma no_match_not_usable:
  "\<not> list_ex (is_match issuer currency) entries \<Longrightarrow> \<not> usable_trust_line issuer currency entries"
  using usable_has_match by blast

lemma examine_result_dicts:
  assumes "''error'' \<notin> fst ` set result"
    and "map_of result ''lines'' = Some (JArr (map JObj entries))"
  shows "examine_result out self result =
           (case print_emoji out Star of
              None \<Rightarrow> Inr (usable_trust_line (token_issuer self) (token_currency self) entries)
            | Some e \<Rightarrow>
                if list_ex (is_match (token_issuer self) (token_currency self)) entries
                then Inl e else Inr False)"
proof (cases "entries = []")
  case True
  with assms show ?thesis
    by (simp add: examine_result_def dict_get_def show_trust_lines_def usable_trust_line_def
          split: option.splits)
next
  case False
  with assms show ?thesis
    by (auto simp: examine_result_def dict_get_def show_trust_lines_def show_lines_dicts
          scan_lines_dicts no_match_not_usable split: option.splits)
qed

lemma check_trustline_dicts:
  assumes "client self = Some c"
    and "client_request out tr w = Response result"
    and "''error'' \<notin> fst ` set result"
    and "map_of result ''lines'' = Some (JArr (map JObj entries))"
  shows "check_trustline out self w tr =
           (Inr (print_emoji out Star = None
                 \<and> usable_trust_line (token_issuer self) (token_currency self) entries),
            tr @ [ClientRequest w])"
  using assms(1,2) examine_result_dicts [OF assms(3,4), of out self]
  by (auto simp: check_trustline_def check_trustline_try_def no_match_not_usable
        split: option.splits)

lemma check_trustline_total:
  "\<exists>b. check_trustline out self w tr =
     (Inr b, tr @ (if client self = None then [] else [ClientRequest w]))"
  by (auto simp: check_trustline_def check_trustline_try_def split: option.splits reply.splits sum.splits)

lemma check_wallets_loop_trace:
  "\<exists>r ws'. check_wallets_loop out self ws acc tr = (r, tr @ map ClientRequest ws')"
proof (induction ws arbitrary: acc tr)
  case Nil
  have "check_wallets_loop out self [] acc tr = (Inr acc, tr @ map ClientRequest [])" by simp
  then show ?case by blast
next
  case (Cons w ws)
  define asked where "asked = (if client self = None then [] else [w])"
  obtain b where b: "check_trustline out self w tr = (Inr b, tr @ map ClientRequest asked)"
    using check_trustline_total [of out self w tr] by (auto simp: asked_def)
  show ?case
  proof (cases "print_emoji out (if b then CheckMark else CrossMark)")
    case (Some e)
    with b have "check_wallets_loop out self (w # ws) acc tr = (Inl e, tr @ map ClientRequest asked)"
      by simp
    then show ?thesis by blast
  next
    case None
    from Cons.IH [of "acc @ [\<lparr>address = w, has_trustline = b\<rparr>]" "tr @ map ClientRequest asked"]
    obtain r ws' where
      "check_wallets_loop out self ws (acc @ [\<lparr>address = w, has_trustline = b\<rparr>])
         (tr @ map ClientRequest asked) = (r, (tr @ map ClientRequest asked) @ map ClientRequest ws')"
      by blast
    with b None have
      "check_wallets_loop out self (w # ws) acc tr = (r, tr @ map ClientRequest (asked @ ws'))"
      by simp
    then show ?thesis by blast
  qed
qed

lemma check_wallets_loop_printed:
  assumes "print_emoji out CheckMark = None" and "print_emoji out CrossMark = None"
  shows "\<exists>rs. check_wallets_loop out self ws acc tr =
          (Inr (acc @ rs), tr @ (if client self = None then [] else map ClientRequest ws))
        \<and> map address rs = ws"
proof (induction ws arbitrary: acc tr)
  case Nil
  then show ?case by simp
next
  case (Cons w ws)
  obtain b where b: "check_trustline out self w tr =
      (Inr b, tr @ (if client self = None then [] else [ClientRequest w]))"
    using check_trustline_total by blast
  have printed: "print_emoji out (if b then CheckMark else CrossMark) = None"
    using assms by simp
  let ?st = "\<lparr>address = w, has_trustline = b\<rparr>"
  let ?tr = "tr @ (if client self = None then [] else [ClientRequest w])"
  from Cons.IH [of "acc @ [?st]" ?tr] obtain rs where
    rs: "check_wallets_loop out self ws (acc @ [?st]) ?tr =
           (Inr ((acc @ [?st]) @ rs), ?tr @ (if client self = None then [] else map ClientRequest ws))"
        "map address rs = ws"
    by blast
  have run: "check_wallets_loop out self (w # ws) acc tr =
          (Inr (acc @ (?st # rs)), tr @ (if client self = None then [] else map ClientRequest (w # ws)))"
    using b rs(1) printed by simp
  have order: "map address (?st # rs) = w # ws"
    using rs(2) by simp
  show ?case by (rule exI [of _ "?st # rs"]) (rule conjI [OF run order])
qed

lemma check_wallets_printed:
  assumes "print_emoji out CheckMark = None" and "print_emoji out CrossMark = None"
  shows "\<exists>rs. check_wallets out self ws tr =
          (Inr rs, tr @ (if client self = None then [] else map ClientRequest ws))
        \<and> map address rs = ws"
  using check_wallets_loop_printed [OF assms, of self ws "[]" tr] by (simp add: check_wallets_def)

lemma count_requests_close: "count_list (map ClientRequest ws) ClientClose = 0"
  by (induction ws) auto

lemma session_created_append:
  "session_created out (tr @ tr') = (session_created out tr \<or> session_created out tr')"
  by (simp add: session_created_def)

lemma session_created_Nil: "\<not> session_created out []"
  by (simp add: session_created_def)

lemma session_created_Cons:
  "session_created out (ev # tr) =
     ((case ev of ClientNew url \<Rightarrow> client_new out url = None | _ \<Rightarrow> False)
      \<or> session_created out tr)"
  by (simp add: session_created_def)

lemma session_created_requests: "\<not> session_created out (map ClientRequest ws)"
  by (induction ws) (auto simp: session_created_def)

lemma sum_ones: "sum_list (map (\<lambda>r. 1) xs) = int (length xs)"
  by (induction xs) auto

lemma main_try_trace:
  assumes "main_try out url issuer currency input_csv output_csv tr = (r, chk, tr')"
  shows "(chk = None \<and> tr' = tr @ [LoadWallets input_csv])
       \<or> (\<exists>k. chk = Some k \<and> client k = None \<and> client_new out url \<noteq> None
              \<and> tr' = tr @ [LoadWallets input_csv, ClientNew url])
       \<or> (\<exists>k mid. chk = Some k \<and> client k \<noteq> None \<and> client_new out url = None
              \<and> tr' = tr @ [LoadWallets input_csv, ClientNew url, ClientOpen] @ mid
              \<and> count_list mid ClientClose = 0 \<and> \<not> session_created out mid)"
proof (cases "load_wallets out input_csv")
  case (Inl e)
  with assms show ?thesis by (auto simp: main_try_def)
next
  case (Inr wallets)
  let ?init = "TrustLineChecker_init url issuer currency"
  have url: "websocket_url ?init = url" and none: "client ?init = None"
    by (simp_all add: TrustLineChecker_init_def)
  show ?thesis
  proof (cases "client_new out url")
    case (Some e)
    with assms Inr url none show ?thesis
      by (auto simp: main_try_def connect_def)
  next
    case None
    let ?k = "?init\<lparr>client := Some (AsyncWebsocketClient url)\<rparr>"
    let ?tr2 = "tr @ [LoadWallets input_csv, ClientNew url, ClientOpen]"
    have k: "client ?k \<noteq> None" by simp
    show ?thesis
    proof (cases "client_open out (tr @ [LoadWallets input_csv, ClientNew url])")
      case (Some e)
      with assms Inr None url have "chk = Some ?k \<and> tr' = ?tr2 @ []"
        by (auto simp: main_try_def connect_def)
      with k None show ?thesis
        by (auto simp: session_created_Nil)
    next
      case opened: None
      obtain res asked where run: "check_wallets out ?k wallets ?tr2 =
          (res, ?tr2 @ map ClientRequest asked)"
        using check_wallets_loop_trace [of out ?k wallets "[]" ?tr2]
        by (auto simp: check_wallets_def)
      have conn: "connect out ?init (tr @ [LoadWallets input_csv]) = (Inr (), ?k, ?tr2)"
        using None opened url by (simp add: connect_def)
      show ?thesis
      proof (cases res)
        case (Inl e)
        with assms Inr conn run have "chk = Some ?k \<and> tr' = ?tr2 @ map ClientRequest asked"
          by (simp add: main_try_def)
        with k None show ?thesis
          by (auto simp: session_created_requests count_requests_close)
      next
        case results: (Inr rs)
        show ?thesis
        proof (cases "save_results out rs output_csv")
          case (Some e)
          with assms Inr conn run results have
            "chk = Some ?k \<and> tr' = ?tr2 @ (map ClientRequest asked @ [SaveResults rs output_csv])"
            by (simp add: main_try_def)
          with k None show ?thesis
            by (auto simp: session_created_append session_created_requests count_requests_close
                  session_created_Cons session_created_Nil)
        next
          case saved: None
          with assms Inr conn run results have
            "chk = Some ?k \<and> tr' = ?tr2 @ (map ClientRequest asked
                @ [SaveResults rs output_csv, PrintSummary (summarise rs)])"
            by (simp add: main_try_def)
          with k None show ?thesis
            by (auto simp: session_created_append session_created_requests count_requests_close
                  session_created_Cons session_created_Nil)
        qed
      qed
    qed
  qed
qed

section \<open>What holds on a console that prints every character\<close>

text \<open>
  Where the star is printed, \<open>check_trustline\<close> answers by the first matching entry: true
  exactly when that entry has a limit other than the string \<open>"0"\<close>.
\<close>

lemma check_trustline_first_match_printed:
  assumes "client self = Some c"
    and "client_request out tr wallet_address = Response result"
    and "''error'' \<notin> fst ` set result"
    and "map_of result ''lines'' = Some (JArr (map JObj entries))"
    and "print_emoji out Star = None"
  shows "check_trustline out self wallet_address tr =
           (Inr (usable_trust_line (token_issuer self) (token_currency self) entries),
            tr @ [ClientRequest wallet_address])"
  using check_trustline_dicts [OF assms(1,2,3,4)] assms(5) by simp

lemma check_trustline_demo_alice:
  "check_trustline demo_outside demo_checker ''rAlice'' [] = (Inr True, [ClientRequest ''rAlice''])"
  by (simp add: check_trustline_def check_trustline_try_def examine_result_def
        show_trust_lines_def dict_get_def py_split_def demo_checker_def
        demo_outside_def demo_request_def TrustLineChecker_init_def eur_line_def usd_line_def
        Let_def)

text \<open>
  Whatever the console, an exception of the \<open>try\<close> block is turned into the result false
  and \<open>check_trustline\<close> returns.
\<close>

lemma exception_contained_in_check_trustline:
  "(\<forall>e tr'. check_trustline_try out self w tr = (Inl e, tr')
        \<longrightarrow> check_trustline out self w tr = (Inr False, tr'))
   \<and> (\<exists>b. fst (check_trustline out self w tr) = Inr b)"
  using check_trustline_total [of out self w tr] by (auto simp: check_trustline_def)

text \<open>
  Where the tick and the cross are printed, \<open>check_wallets\<close> returns one status per
  address, in order, and with a client it asks for every address.
\<close>

lemma check_wallets_one_status_per_address_printed:
  assumes "print_emoji out CheckMark = None" and "print_emoji out CrossMark = None"
  shows "\<exists>results. check_wallets out self wallets tr =
            (Inr results, tr @ (if client self = None then [] else map ClientRequest wallets))
          \<and> length results = length wallets
          \<and> map address results = wallets"
proof -
  obtain rs where rs: "check_wallets out self wallets tr =
      (Inr rs, tr @ (if client self = None then [] else map ClientRequest wallets))"
      "map address rs = wallets"
    using check_wallets_printed [OF assms] by blast
  from rs(2) have "length rs = length wallets" by (metis length_map)
  with rs show ?thesis by blast
qed

section \<open>The claims\<close>

text \<open>
  C1. The claim: \<open>check_trustline\<close> returns true exactly when, in the order returned,
  there is an entry whose account is the normalised issuer and whose currency is the
  target currency, and the first such entry has a limit that is not the string \<open>"0"\<close>.
  The deciding loop of lines 70 to 77 computes that, but the debugging loop before it
  prints a star after every matching entry, inside the \<open>try\<close> block. On a console that
  cannot encode the star the print raises, the exception is caught at line 79, and
  \<open>check_trustline\<close> returns false for every list of entries, a usable trust line
  included.
\<close>

theorem star_unprintable_gives_false:
  assumes "client self = Some c"
    and "client_request out tr wallet_address = Response result"
    and "''error'' \<notin> fst ` set result"
    and "map_of result ''lines'' = Some (JArr (map JObj entries))"
    and "print_emoji out Star = Some e"
  shows "check_trustline out self wallet_address tr =
           (Inr False, tr @ [ClientRequest wallet_address])"
  using check_trustline_dicts [OF assms(1,2,3,4)] assms(5) by simp

theorem star_unprintable_gives_false_witness:
  "print_emoji demo_outside_ascii Star = Some UnicodeEncodeError
   \<and> usable_trust_line (token_issuer demo_checker) (token_currency demo_checker)
        [eur_line, usd_line]
   \<and> check_trustline demo_outside_ascii demo_checker ''rAlice'' []
        = (Inr False, [ClientRequest ''rAlice''])"
proof -
  have 1: "client demo_checker = Some (AsyncWebsocketClient ''wss://node'')"
    by (simp add: demo_checker_def)
  have 2: "client_request demo_outside_ascii [] ''rAlice''
             = Response [(''lines'', JArr (map JObj [eur_line, usd_line]))]"
    by (simp add: demo_outside_ascii_def demo_outside_def demo_request_def)
  have 3: "''error'' \<notin> fst ` set [(''lines'', JArr (map JObj [eur_line, usd_line]))]"
    by simp
  have 4: "map_of [(''lines'', JArr (map JObj [eur_line, usd_line]))] ''lines''
             = Some (JArr (map JObj [eur_line, usd_line]))"
    by simp
  have 5: "print_emoji demo_outside_ascii Star = Some UnicodeEncodeError"
    by (simp add: demo_outside_ascii_def)
  have 6: "usable_trust_line (token_issuer demo_checker) (token_currency demo_checker)
             [eur_line, usd_line]"
    by (simp add: usable_trust_line_def is_match_def demo_checker_def TrustLineChecker_init_def
          py_split_def eur_line_def usd_line_def)
  from star_unprintable_gives_false [OF 1 2 3 4 5] 5 6 show ?thesis by simp
qed

text \<open>
  C2. The claim: \<open>check_wallets\<close> returns a result sequence of the length of the input,
  one WalletStatus per address, in order. The loop builds that list, but after each
  address it prints the status with a tick or a cross (line 90), outside any \<open>try\<close>. On
  a console that can encode neither, the print after the first address raises and
  \<open>check_wallets\<close> returns no list: it raises, with only the first address asked.
\<close>

theorem status_unprintable_stops_batch:
  assumes "print_emoji out CheckMark = Some e1"
    and "print_emoji out CrossMark = Some e2"
  shows "check_wallets out self (wallet # rest) tr
           = (Inl e1, snd (check_trustline out self wallet tr))
       \<or> check_wallets out self (wallet # rest) tr
           = (Inl e2, snd (check_trustline out self wallet tr))"
proof -
  obtain b tr' where b: "check_trustline out self wallet tr = (Inr b, tr')"
    using check_trustline_total [of out self wallet tr] by blast
  show ?thesis
  proof (cases b)
    case True
    with b assms(1) show ?thesis by (simp add: check_wallets_def)
  next
    case False
    with b assms(2) show ?thesis by (simp add: check_wallets_def)
  qed
qed

theorem status_unprintable_stops_batch_witness:
  "print_emoji demo_outside_ascii CheckMark = Some UnicodeEncodeError
   \<and> print_emoji demo_outside_ascii CrossMark = Some UnicodeEncodeError
   \<and> snd (check_trustline demo_outside_ascii demo_checker ''rAlice'' []) = [ClientRequest ''rAlice'']
   \<and> check_wallets demo_outside_ascii demo_checker [''rAlice'', ''rBob'', ''rCarol''] []
        = (Inl UnicodeEncodeError, [ClientRequest ''rAlice''])"
proof -
  have 1: "print_emoji demo_outside_ascii CheckMark = Some UnicodeEncodeError"
    and 2: "print_emoji demo_outside_ascii CrossMark = Some UnicodeEncodeError"
    by (simp_all add: demo_outside_ascii_def)
  have 3: "snd (check_trustline demo_outside_ascii demo_checker ''rAlice'' [])
             = [ClientRequest ''rAlice'']"
    using check_trustline_total [of demo_outside_ascii demo_checker "''rAlice''" "[]"]
    by (auto simp: demo_checker_def)
  from status_unprintable_stops_batch
         [OF 1 2, of demo_checker "''rAlice''" "[''rBob'', ''rCarol'']" "[]"] 1 2 3
  show ?thesis by auto
qed



text \<open>
  C4. \<open>TrustLineChecker.__init__\<close>: when the configured issuer holds a full stop, the
  issuer kept is the part after the last full stop; when it holds none, the issuer is
  kept unchanged. This happens at construction; connecting does not change it, and the
  evaluation only reads it.
\<close>

theorem issuer_normalised_at_construction:
  "(CHR ''.'' \<in> set issuer \<longrightarrow>
      (\<exists>pre. issuer = pre @ CHR ''.'' # token_issuer (TrustLineChecker_init url issuer currency))
      \<and> CHR ''.'' \<notin> set (token_issuer (TrustLineChecker_init url issuer currency)))
   \<and> (CHR ''.'' \<notin> set issuer \<longrightarrow>
        token_issuer (TrustLineChecker_init url issuer currency) = issuer)
   \<and> token_issuer (fst (snd (connect out self tr))) = token_issuer self"
proof (intro conjI impI)
  assume dot: "CHR ''.'' \<in> set issuer"
  from split_acc_last [OF dot, of "[]"] obtain pre where
    pre: "issuer = pre @ CHR ''.'' # last (split_acc (CHR ''.'') [] issuer)"
         "CHR ''.'' \<notin> set (last (split_acc (CHR ''.'') [] issuer))"
    by blast
  have t: "token_issuer (TrustLineChecker_init url issuer currency)
             = last (split_acc (CHR ''.'') [] issuer)"
    using dot by (simp add: TrustLineChecker_init_def py_split_def)
  from pre(1) show "\<exists>pre. issuer = pre @ CHR ''.'' # token_issuer (TrustLineChecker_init url issuer currency)"
    unfolding t by blast
  from pre(2) show "CHR ''.'' \<notin> set (token_issuer (TrustLineChecker_init url issuer currency))"
    unfolding t .
next
  assume "CHR ''.'' \<notin> set issuer"
  then show "token_issuer (TrustLineChecker_init url issuer currency) = issuer"
    by (simp add: TrustLineChecker_init_def)
next
  show "token_issuer (fst (snd (connect out self tr))) = token_issuer self"
    by (simp add: connect_def Let_def split: option.splits)
qed

theorem issuer_normalised_at_construction_witness:
  "CHR ''.'' \<in> set ''ns.rABC123''
   \<and> token_issuer (TrustLineChecker_init ''wss://node'' ''ns.rABC123'' ''USD'') = ''rABC123''
   \<and> CHR ''.'' \<notin> set ''rABC123''
   \<and> token_issuer (TrustLineChecker_init ''wss://node'' ''rABC123'' ''USD'') = ''rABC123''"
proof -
  have 1: "CHR ''.'' \<in> set ''ns.rABC123''" by simp
  have 2: "CHR ''.'' \<notin> set ''rABC123''" by simp
  have 3: "token_issuer (TrustLineChecker_init ''wss://node'' ''ns.rABC123'' ''USD'') = ''rABC123''"
    by (simp add: TrustLineChecker_init_def py_split_def)
  from issuer_normalised_at_construction [of "''rABC123''" "''wss://node''" "''USD''"] 2
  have 4: "token_issuer (TrustLineChecker_init ''wss://node'' ''rABC123'' ''USD'') = ''rABC123''"
    by blast
  from 1 2 3 4 show ?thesis by blast
qed



text \<open>
  Where the cross is printed, the batch goes on after an address whose response carries
  an error.
\<close>

lemma error_response_continues_printed:
  assumes "client self = Some c"
    and "client_request out tr w = Response result"
    and "''error'' \<in> fst ` set result"
    and "print_emoji out CrossMark = None"
  shows "check_wallets out self (w # rest) tr =
           check_wallets_loop out self rest [\<lparr>address = w, has_trustline = False\<rparr>]
             (tr @ [ClientRequest w])"
  using assms
  by (simp add: check_trustline_def check_trustline_try_def examine_result_def
        check_wallets_def)

text \<open>
  C6. On every path through \<open>main\<close> the session, once created, is closed exactly once,
  and the close is the last call made; when no session was created there is no close.
  \<open>close\<close> on a checker that never got a client does nothing and does not raise.
\<close>

theorem session_closed_exactly_once:
  "count_list (snd (main out [])) ClientClose
     = (if session_created out (snd (main out [])) then 1 else 0)
   \<and> (session_created out (snd (main out [])) \<longrightarrow> last (snd (main out [])) = ClientClose)
   \<and> (client self = None \<longrightarrow> close out self tr = (Inr (), tr))"
proof -
  let ?url = "getenv out ''XRPL_WEBSOCKET_URL''"
  let ?issuer = "getenv out ''TOKEN_ISSUER''"
  let ?currency = "getenv out ''TOKEN_CURRENCY''"
  let ?input = "case getenv out ''INPUT_CSV'' of None \<Rightarrow> ''wallets.csv'' | Some p \<Rightarrow> p"
  let ?output = "case getenv out ''OUTPUT_CSV'' of None \<Rightarrow> ''trustline_status.csv'' | Some p \<Rightarrow> p"
  let ?T = "snd (main out [])"
  have noop: "client self = None \<longrightarrow> close out self tr = (Inr (), tr)"
    by (simp add: close_def)
  have run: "count_list ?T ClientClose = (if session_created out ?T then 1 else 0)
      \<and> (session_created out ?T \<longrightarrow> last ?T = ClientClose)"
  proof (cases "setting_given ?url \<and> setting_given ?issuer \<and> setting_given ?currency")
    case False
    then have "?T = []" by (auto simp: main_def Let_def)
    then show ?thesis by (simp add: session_created_Nil)
  next
    case True
    obtain r chk tr' where
      t: "main_try out (the ?url) (the ?issuer) (the ?currency) ?input ?output [] = (r, chk, tr')"
      by (cases "main_try out (the ?url) (the ?issuer) (the ?currency) ?input ?output []") auto
    from True t have m: "main out [] =
        (case chk of None \<Rightarrow> (Inr (), tr') | Some checker \<Rightarrow> close out checker tr')"
      by (simp add: main_def Let_def split: option.splits)
    from main_try_trace [OF t] consider
        (unloaded) "chk = None" "tr' = [LoadWallets ?input]"
      | (unbuilt) k where "chk = Some k" "client k = None" "client_new out (the ?url) \<noteq> None"
          "tr' = [LoadWallets ?input, ClientNew (the ?url)]"
      | (built) k mid where "chk = Some k" "client k \<noteq> None" "client_new out (the ?url) = None"
          "tr' = [LoadWallets ?input, ClientNew (the ?url), ClientOpen] @ mid"
          "count_list mid ClientClose = 0" "\<not> session_created out mid"
      by auto
    then show ?thesis
    proof cases
      case unloaded
      with m have "?T = [LoadWallets ?input]" by simp
      then show ?thesis by (simp add: session_created_Cons session_created_Nil)
    next
      case unbuilt
      with m have "?T = [LoadWallets ?input, ClientNew (the ?url)]"
        by (simp add: close_def)
      with unbuilt(3) show ?thesis
        by (simp add: session_created_Cons session_created_Nil)
    next
      case built
      with m have "?T = ([LoadWallets ?input, ClientNew (the ?url), ClientOpen] @ mid) @ [ClientClose]"
        by (auto simp: close_def split: option.splits)
      with built(3,5,6) show ?thesis
        by (simp add: session_created_Cons session_created_Nil session_created_append)
    qed
  qed
  from run noop show ?thesis by blast
qed

theorem session_closed_exactly_once_witness:
  "snd (main demo_outside_open_fails [])
       = [LoadWallets ''wallets.csv'', ClientNew ''wss://node'', ClientOpen, ClientClose]
   \<and> session_created demo_outside_open_fails (snd (main demo_outside_open_fails []))
   \<and> count_list (snd (main demo_outside_open_fails [])) ClientClose = 1
   \<and> last (snd (main demo_outside_open_fails [])) = ClientClose
   \<and> client (TrustLineChecker_init ''wss://node'' ''ns.rABC123'' ''USD'') = None
   \<and> close demo_outside_open_fails (TrustLineChecker_init ''wss://node'' ''ns.rABC123'' ''USD'') []
       = (Inr (), [])"
proof -
  have t: "snd (main demo_outside_open_fails [])
             = [LoadWallets ''wallets.csv'', ClientNew ''wss://node'', ClientOpen, ClientClose]"
    by (simp add: main_def main_try_def connect_def close_def setting_given_def
          demo_outside_open_fails_def demo_outside_def demo_getenv_def TrustLineChecker_init_def
          Let_def)
  have s: "session_created demo_outside_open_fails (snd (main demo_outside_open_fails []))"
    unfolding t
    by (simp add: session_created_def demo_outside_open_fails_def demo_outside_def)
  have n: "client (TrustLineChecker_init ''wss://node'' ''ns.rABC123'' ''USD'') = None"
    by (simp add: TrustLineChecker_init_def)
  from session_closed_exactly_once
         [of demo_outside_open_fails "TrustLineChecker_init ''wss://node'' ''ns.rABC123'' ''USD''" "[]"]
       s n t
  show ?thesis by simp
qed

text \<open>
  A whole run on the demonstration ledger, where the request for Bob fails and Carol's
  gives an error: every address is asked, the results are saved and summarised, and the
  session is closed last.
\<close>

lemma main_demo_run:
  "main demo_outside [] =
     (Inr (),
      [LoadWallets ''wallets.csv'', ClientNew ''wss://node'', ClientOpen,
       ClientRequest ''rAlice'', ClientRequest ''rBob'', ClientRequest ''rCarol'',
       SaveResults [\<lparr>address = ''rAlice'', has_trustline = True\<rparr>,
                    \<lparr>address = ''rBob'', has_trustline = False\<rparr>,
                    \<lparr>address = ''rCarol'', has_trustline = False\<rparr>] ''trustline_status.csv'',
       PrintSummary \<lparr>total_checked = 3, with_trustline = 1, without_trustline = 2,
                      wallets_without_trustlines = [''rBob'', ''rCarol'']\<rparr>,
       ClientClose])"
  by (simp add: main_def main_try_def connect_def close_def setting_given_def
        check_wallets_def check_trustline_def check_trustline_try_def examine_result_def
        show_trust_lines_def dict_get_def summarise_def py_split_def
        demo_outside_def demo_getenv_def demo_request_def TrustLineChecker_init_def
        eur_line_def usd_line_def Let_def)

text \<open>
  The same run on a console in ASCII: the star of Alice's entry cannot be printed, so her
  result is false; then the cross cannot be printed, \<open>check_wallets\<close> raises, nothing is
  saved, and the session is still closed.
\<close>

lemma main_demo_run_ascii:
  "main demo_outside_ascii [] =
     (Inr (),
      [LoadWallets ''wallets.csv'', ClientNew ''wss://node'', ClientOpen,
       ClientRequest ''rAlice'', ClientClose])"
  by (simp add: main_def main_try_def connect_def close_def setting_given_def
        check_wallets_def check_trustline_def check_trustline_try_def examine_result_def
        show_trust_lines_def dict_get_def py_split_def
        demo_outside_ascii_def demo_outside_def demo_getenv_def demo_request_def
        TrustLineChecker_init_def eur_line_def usd_line_def Let_def)

text \<open>
  C7. The summary depends on the result list alone: the total is its length, the count
  with a trust line is the number of entries with \<open>has_trustline\<close> true, the count
  without is the number with false, which is the total minus the former, and the
  addresses without are those of the entries with false, in the order of the list. For
  \<open>[(A, true), (B, false), (C, false)]\<close> it gives 3, 1, 2 and \<open>[B, C]\<close>.
\<close>

theorem summarise_counts:
  "total_checked (summarise results) = int (length results)
   \<and> with_trustline (summarise results) = int (length (filter has_trustline results))
   \<and> without_trustline (summarise results)
       = int (length (filter (\<lambda>r. \<not> has_trustline r) results))
   \<and> without_trustline (summarise results)
       = total_checked (summarise results) - with_trustline (summarise results)
   \<and> wallets_without_trustlines (summarise results)
       = map address (filter (\<lambda>r. \<not> has_trustline r) results)
   \<and> summarise [\<lparr>address = a, has_trustline = True\<rparr>, \<lparr>address = b, has_trustline = False\<rparr>,
                 \<lparr>address = c, has_trustline = False\<rparr>]
       = \<lparr>total_checked = 3, with_trustline = 1, without_trustline = 2,
          wallets_without_trustlines = [b, c]\<rparr>"
proof -
  have split: "length results
      = length (filter has_trustline results) + length (filter (\<lambda>r. \<not> has_trustline r) results)"
    by (rule sum_length_filter_compl [symmetric])
  have total: "total_checked (summarise results) = int (length results)"
    by (simp add: summarise_def Let_def)
  have yes: "with_trustline (summarise results) = int (length (filter has_trustline results))"
    by (simp add: summarise_def Let_def sum_ones)
  have no: "without_trustline (summarise results)
      = int (length (filter (\<lambda>r. \<not> has_trustline r) results))"
    using split by (simp add: summarise_def Let_def sum_ones)
  have diff: "without_trustline (summarise results)
      = total_checked (summarise results) - with_trustline (summarise results)"
    by (simp add: summarise_def Let_def)
  have names: "wallets_without_trustlines (summarise results)
      = map address (filter (\<lambda>r. \<not> has_trustline r) results)"
    by (simp add: summarise_def Let_def)
  have ex: "summarise [\<lparr>address = a, has_trustline = True\<rparr>, \<lparr>address = b, has_trustline = False\<rparr>,
                 \<lparr>address = c, has_trustline = False\<rparr>]
       = \<lparr>total_checked = 3, with_trustline = 1, without_trustline = 2,
          wallets_without_trustlines = [b, c]\<rparr>"
    by (simp add: summarise_def Let_def)
  from total yes no diff names ex show ?thesis by blast
qed

theorem summarise_counts_witness:
  "summarise [\<lparr>address = ''A'', has_trustline = True\<rparr>, \<lparr>address = ''B'', has_trustline = False\<rparr>,
              \<lparr>address = ''C'', has_trustline = False\<rparr>]
     = \<lparr>total_checked = 3, with_trustline = 1, without_trustline = 2,
        wallets_without_trustlines = [''B'', ''C'']\<rparr>"
  using summarise_counts [of "[]" "''A''" "''B''" "''C''"] by blast

text \<open>
  C8. When one of the three required settings (the websocket URL, the issuer, the
  currency) is not set, \<open>main\<close> returns at once: no event is added, so the input file is
  not read, no client is built, opened or asked, and nothing is closed.
\<close>

theorem missing_setting_makes_no_call:
  assumes "getenv out ''XRPL_WEBSOCKET_URL'' = None
         \<or> getenv out ''TOKEN_ISSUER'' = None
         \<or> getenv out ''TOKEN_CURRENCY'' = None"
  shows "main out tr = (Inr (), tr)"
  using assms by (auto simp: main_def setting_given_def Let_def)

theorem missing_setting_makes_no_call_witness:
  "getenv demo_outside_no_issuer ''TOKEN_ISSUER'' = None
   \<and> main demo_outside_no_issuer [] = (Inr (), [])"
proof -
  have 1: "getenv demo_outside_no_issuer ''TOKEN_ISSUER'' = None"
    by (simp add: demo_outside_no_issuer_def)
  then have "getenv demo_outside_no_issuer ''XRPL_WEBSOCKET_URL'' = None
         \<or> getenv demo_outside_no_issuer ''TOKEN_ISSUER'' = None
         \<or> getenv demo_outside_no_issuer ''TOKEN_CURRENCY'' = None"
    by blast
  from missing_setting_makes_no_call [OF this, of "[]"] 1 show ?thesis by blast
qed

text \<open>
  C9. When the first entry that matches issuer and currency has no \<open>limit\<close> field, the
  limit read is the default, the string \<open>"0"\<close>, and \<open>check_trustline\<close> returns false,
  whatever entries follow.
\<close>

theorem missing_limit_reads_as_zero:
  assumes "client self = Some c"
    and "client_request out tr w = Response result"
    and "''error'' \<notin> fst ` set result"
    and "map_of result ''lines'' = Some (JArr (map JObj entries))"
    and "find (is_match (token_issuer self) (token_currency self)) entries = Some entry"
    and "map_of entry ''limit'' = None"
  shows "dict_get entry ''limit'' (JStr ''0'') = JStr ''0''
       \<and> check_trustline out self w tr = (Inr False, tr @ [ClientRequest w])"
proof -
  from assms(5,6) have "\<not> usable_trust_line (token_issuer self) (token_currency self) entries"
    by (simp add: usable_trust_line_def)
  with check_trustline_dicts [OF assms(1,2,3,4)]
  have "check_trustline out self w tr = (Inr False, tr @ [ClientRequest w])"
    by simp
  moreover from assms(6) have "dict_get entry ''limit'' (JStr ''0'') = JStr ''0''"
    by (simp add: dict_get_def)
  ultimately show ?thesis by blast
qed

theorem missing_limit_reads_as_zero_witness:
  "find (is_match (token_issuer demo_checker) (token_currency demo_checker))
       [usd_line_no_limit, usd_line] = Some usd_line_no_limit
   \<and> map_of usd_line_no_limit ''limit'' = None
   \<and> check_trustline demo_outside demo_checker ''rDave'' [] = (Inr False, [ClientRequest ''rDave''])"
proof -
  let ?result = "[(''lines'', JArr (map JObj [usd_line_no_limit, usd_line]))]"
  have 1: "client demo_checker = Some (AsyncWebsocketClient ''wss://node'')"
    by (simp add: demo_checker_def)
  have 2: "client_request demo_outside [] ''rDave'' = Response ?result"
    by (simp add: demo_outside_def demo_request_def)
  have 3: "''error'' \<notin> fst ` set ?result" by simp
  have 4: "map_of ?result ''lines'' = Some (JArr (map JObj [usd_line_no_limit, usd_line]))"
    by simp
  have 5: "find (is_match (token_issuer demo_checker) (token_currency demo_checker))
             [usd_line_no_limit, usd_line] = Some usd_line_no_limit"
    by (simp add: is_match_def demo_checker_def TrustLineChecker_init_def py_split_def
          usd_line_no_limit_def)
  have 6: "map_of usd_line_no_limit ''limit'' = None"
    by (simp add: usd_line_no_limit_def)
  from missing_limit_reads_as_zero [OF 1 2 3 4 5 6] 5 6 show ?thesis by simp
qed

text \<open>
  C10. When a response has no \<open>error\<close> field and no \<open>lines\<close> field, the lines read are
  the default, the empty list, and \<open>check_trustline\<close> returns false without raising.
\<close>

theorem missing_lines_reads_as_empty:
  assumes "client self = Some c"
    and "client_request out tr w = Response result"
    and "''error'' \<notin> fst ` set result"
    and "map_of result ''lines'' = None"
  shows "dict_get result ''lines'' (JArr []) = JArr []
       \<and> check_trustline out self w tr = (Inr False, tr @ [ClientRequest w])"
  using assms
  by (simp add: check_trustline_def check_trustline_try_def examine_result_def dict_get_def
        show_trust_lines_def)

theorem missing_lines_reads_as_empty_witness:
  "client_request demo_outside [] ''rEve'' = Response [(''account'', JStr ''rEve'')]
   \<and> check_trustline demo_outside demo_checker ''rEve'' [] = (Inr False, [ClientRequest ''rEve''])"
proof -
  have 1: "client demo_checker = Some (AsyncWebsocketClient ''wss://node'')"
    by (simp add: demo_checker_def)
  have 2: "client_request demo_outside [] ''rEve'' = Response [(''account'', JStr ''rEve'')]"
    by (simp add: demo_outside_def demo_request_def)
  have 3: "''error'' \<notin> fst ` set [(''account'', JStr ''rEve'')]" by simp
  have 4: "map_of [(''account'', JStr ''rEve'')] ''lines'' = None" by simp
  from missing_lines_reads_as_empty [OF 1 2 3 4] 2 show ?thesis by simp
qed

end
